theory Spec2Isabelle
  imports Complex_Main "HOL-Library.Char_ord" "HOL-Library.List_Lexorder"
begin

section \<open>Values shared by the Session (Player) and the Orchestrator (Manager)\<close>

text \<open>
  The development embeds \<^verbatim>\<open>src/structures/Player.ts\<close> and
  \<^verbatim>\<open>src/structures/Manager.ts\<close>. A thrown exception is a value of type
  \<open>error\<close>; every method returns its outcome together with the state it leaves behind,
  so that what a failing call has already changed stays visible.
\<close>

datatype error = TypeError string | RangeError string

text \<open>
  A JavaScript number. Finite numbers are rationals: the code only stores, compares and
  clamps them, so rounding of the double format plays no part (signed zeros are not
  distinguished).
\<close>

datatype jsnum = NaN | NegInf | Fin rat | PosInf

text \<open>
  An object whose property values are finite numbers, as an association list in
  property order (\<^verbatim>\<open>Object.keys\<close> is \<open>map fst\<close>).
\<close>

type_synonym js_object = "(string \<times> rat) list"

text \<open>A \<^verbatim>\<open>Collection\<close> is a \<^verbatim>\<open>Map\<close>: keyed entries in insertion order.\<close>

type_synonym ('k, 'v) collection = "('k \<times> 'v) list"

definition has :: "('k, 'v) collection \<Rightarrow> 'k \<Rightarrow> bool" where
  "has c k = (map_of c k \<noteq> None)"

definition get_entry :: "('k, 'v) collection \<Rightarrow> 'k \<Rightarrow> 'v option" where
  "get_entry c k = map_of c k"

fun set_entry :: "'k \<Rightarrow> 'v \<Rightarrow> ('k, 'v) collection \<Rightarrow> ('k, 'v) collection" where
  "set_entry k v [] = [(k, v)]"
| "set_entry k v (e # es) = (if fst e = k then (k, v) # es else e # set_entry k v es)"

definition first :: "('k, 'v) collection \<Rightarrow> 'v option" where
  "first c = (case c of [] \<Rightarrow> None | e # _ \<Rightarrow> Some (snd e))"

subsection \<open>Tracks and the Queue\<close>

text \<open>
  Modelled from the spec: \<^verbatim>\<open>Queue.ts\<close> and \<^verbatim>\<open>Utils.ts\<close> are not among the
  sources. A queue entry is a resolved Track (its encoded handle and title) or an
  UnresolvedTrack (its title); the Queue is the pending sequence plus the \<open>current\<close> and
  \<open>previous\<close> slots, and \<open>totalSize\<close> counts the pending entries plus the current one.
\<close>

datatype queue_entry = Track (track: string) (title: string) | UnresolvedTrack (title: string)

record queue =
  entries :: "queue_entry list"
  current :: "queue_entry option"
  previous :: "queue_entry option"

definition totalSize :: "queue \<Rightarrow> nat" where
  "totalSize q = length (entries q) + (if current q \<noteq> None then 1 else 0)"

subsection \<open>What leaves the core\<close>

datatype voice_update =
    VoiceServer (token: string) (guild_id: string) (endpoint: string)
  | VoiceStateUpdate (guild_id: string) (user_id: string) (session_id: string)
      (channel_id: "string option")
  | OtherUpdate (guild_id: string)

text \<open>
  The credential record \<^verbatim>\<open>player.voiceState\<close>: a field is \<open>None\<close> when the key
  is absent from the object.
\<close>

record voice_state =
  op :: "string option"
  guildId :: "string option"
  event :: "voice_update option"
  sessionId :: "string option"

record play_options =
  startTime :: "rat option"
  endTime :: "rat option"
  noReplace :: "bool option"

text \<open>
  The operations handed to \<^verbatim>\<open>node.send\<close>. An equalizer operation carries one
  \<open>(band, gain)\<close> pair per slot of the gain array (\<open>None\<close> for an empty slot).
\<close>

datatype operation =
    Volume_op string rat
  | Equalizer_op string "(nat \<times> rat) option list"
  | Play_op string string play_options
  | Stop_op string
  | Pause_op string bool
  | VoiceUpdate_op voice_state

text \<open>The gateway payload \<^verbatim>\<open>{op, d: {guild_id, channel_id, self_mute, self_deaf}}\<close>.\<close>

datatype payload = Payload nat string "string option" bool bool

datatype emitted_event =
    PlayerCreate string
  | PlayerMove string "string option" "string option"
  | PlayerDisconnect string "string option"
  | TrackError string queue_entry

text \<open>
  Modelled from the spec: \<^verbatim>\<open>Node.ts\<close> is not among the sources, and
  \<^verbatim>\<open>Node.send\<close> is fire-and-forget, so a send is recorded and nothing is awaited.
  The effects of the core on its collaborators are kept in order: the operations handed
  to \<^verbatim>\<open>Node.send\<close> (with the identifier of the Node), the payloads handed to
  \<^verbatim>\<open>options.send\<close> (with the guild id) and the events emitted by the Manager.
\<close>

record effects =
  sent :: "(string \<times> operation) list"
  gateway :: "(string \<times> payload) list"
  emitted :: "emitted_event list"

definition node_send :: "string \<Rightarrow> operation \<Rightarrow> effects \<Rightarrow> effects" where
  "node_send n x fx = fx\<lparr>sent := sent fx @ [(n, x)]\<rparr>"

definition options_send :: "string \<Rightarrow> payload \<Rightarrow> effects \<Rightarrow> effects" where
  "options_send g x fx = fx\<lparr>gateway := gateway fx @ [(g, x)]\<rparr>"

definition emit :: "emitted_event \<Rightarrow> effects \<Rightarrow> effects" where
  "emit e fx = fx\<lparr>emitted := emitted fx @ [e]\<rparr>"

section \<open>The Session: \<^verbatim>\<open>Player.ts\<close>\<close>

record player_options =
  opt_guild :: string
  opt_textChannel :: "string option"
  opt_voiceChannel :: "string option"
  opt_node :: "string option"
  opt_volume :: "jsnum option"
  opt_selfMute :: "bool option"
  opt_selfDeafen :: "bool option"

datatype State = CONNECTED | CONNECTING | DISCONNECTED | DISCONNECTING | DESTROYING

text \<open>
  The fields of the class. \<open>node\<close> holds the identifier of the assigned Node and
  \<open>volume\<close> is \<open>None\<close> until \<open>setVolume\<close> has run (the class gives it no initial
  value). An element of \<open>bands\<close> is \<open>None\<close> where the array has an empty slot.
\<close>

record player =
  options :: player_options
  queue :: queue
  trackRepeat :: bool
  queueRepeat :: bool
  playing :: bool
  paused :: bool
  volume :: "rat option"
  node :: string
  guild :: string
  voiceChannel :: "string option"
  textChannel :: "string option"
  state :: State
  bands :: "rat option list"
  voiceState :: voice_state

type_synonym 'a outcome = "(error + 'a) \<times> player \<times> effects"

subsection \<open>Equalizer\<close>

text \<open>
  \<^verbatim>\<open>JSON.stringify(Object.keys(band).sort()) === '["band","gain"]'\<close>: the sorted
  property names are exactly \<open>band\<close> and \<open>gain\<close>.
\<close>

definition band_keys_ok :: "js_object \<Rightarrow> bool" where
  "band_keys_ok b = (sort (map fst b) = [''band'', ''gain''])"

text \<open>
  \<^verbatim>\<open>this.bands[band] = gain\<close>. A non-negative whole number below \<open>2^32 - 1\<close> is an
  array index: inside the array it overwrites the slot, beyond the end the array grows,
  with empty slots in between. Any other number names an ordinary property of the array
  object and leaves every element as it was.
\<close>

definition is_array_index :: "rat \<Rightarrow> bool" where
  "is_array_index b = (0 \<le> b \<and> b = of_int \<lfloor>b\<rfloor> \<and> b < 2 ^ 32 - 1)"

definition array_assign :: "rat option list \<Rightarrow> rat \<Rightarrow> rat \<Rightarrow> rat option list" where
  "array_assign xs b g =
     (if is_array_index b then
        (let i = nat \<lfloor>b\<rfloor> in
         if i < length xs then xs[i := Some g]
         else xs @ replicate (i - length xs) None @ [Some g])
      else xs)"

text \<open>
  One round of \<^verbatim>\<open>for (const { band, gain } of bands) this.bands[band] = gain\<close>. The
  loop only runs on objects that passed \<open>band_keys_ok\<close>, so both properties are there.
\<close>

definition assign_band :: "rat option list \<Rightarrow> js_object \<Rightarrow> rat option list" where
  "assign_band xs b =
     (case (map_of b ''band'', map_of b ''gain'') of
        (Some i, Some g) \<Rightarrow> array_assign xs i g
      | _ \<Rightarrow> xs)"

text \<open>\<^verbatim>\<open>this.bands.map((gain, band) => ({ band, gain }))\<close>; \<open>map\<close> skips empty slots.\<close>

definition band_entries :: "rat option list \<Rightarrow> (nat \<times> rat) option list" where
  "band_entries xs = map (\<lambda>(i, g). map_option (\<lambda>x. (i, x)) g) (zip [0..<length xs] xs)"

text \<open>
  The rest parameter of \<open>setEQ\<close>: the band objects themselves, or one array of them
  (\<^verbatim>\<open>if (Array.isArray(bands[0])) bands = bands[0]\<close>).
\<close>

datatype eq_argument = Spread "js_object list" | SingleArray "js_object list"

fun bands_of :: "eq_argument \<Rightarrow> js_object list" where
  "bands_of (Spread bs) = bs"
| "bands_of (SingleArray bs) = bs"

definition bands_error :: error where
  \<open>bands_error =
     RangeError ''Bands must be a non-empty object array containing 'band' and 'gain' properties.''\<close>

definition setEQ :: "eq_argument \<Rightarrow> player \<Rightarrow> effects \<Rightarrow> unit outcome" where
  "setEQ arg p fx =
     (let bs = bands_of arg in
      if bs = [] \<or> \<not> list_all band_keys_ok bs then (Inl bands_error, p, fx)
      else
        (let p' = p\<lparr>bands := foldl assign_band (bands p) bs\<rparr>
         in (Inr (), p', node_send (node p') (Equalizer_op (guild p') (band_entries (bands p'))) fx)))"

definition clearEQ :: "player \<Rightarrow> effects \<Rightarrow> unit outcome" where
  "clearEQ p fx =
     (let p' = p\<lparr>bands := replicate 15 (Some 0)\<rparr>
      in (Inr (), p', node_send (node p') (Equalizer_op (guild p') (band_entries (bands p'))) fx))"

subsection \<open>Volume, repeat flags, stop and pause\<close>

text \<open>\<^verbatim>\<open>Math.max(Math.min(volume, 1000), 0)\<close> on a number that is not NaN.\<close>

fun clamp_volume :: "jsnum \<Rightarrow> rat" where
  "clamp_volume (Fin v) = max (min v 1000) 0"
| "clamp_volume PosInf = 1000"
| "clamp_volume NegInf = 0"
| "clamp_volume NaN = 0"

definition setVolume :: "jsnum \<Rightarrow> player \<Rightarrow> effects \<Rightarrow> unit outcome" where
  "setVolume v p fx =
     (if v = NaN then (Inl (TypeError ''Volume must be a number.''), p, fx)
      else
        (let p' = p\<lparr>volume := Some (clamp_volume v)\<rparr>
         in (Inr (), p', node_send (node p') (Volume_op (guild p') (clamp_volume v)) fx)))"

text \<open>
  The argument of the two repeat setters is a boolean by its type, so the
  \<^verbatim>\<open>typeof repeat !== "boolean"\<close> branch cannot be taken and the setters always
  return.
\<close>

definition setTrackRepeat :: "bool \<Rightarrow> player \<Rightarrow> player" where
  "setTrackRepeat repeat p =
     (if repeat then p\<lparr>trackRepeat := True, queueRepeat := False\<rparr>
      else p\<lparr>trackRepeat := False, queueRepeat := False\<rparr>)"

definition setQueueRepeat :: "bool \<Rightarrow> player \<Rightarrow> player" where
  "setQueueRepeat repeat p =
     (if repeat then p\<lparr>trackRepeat := False, queueRepeat := True\<rparr>
      else p\<lparr>trackRepeat := False, queueRepeat := False\<rparr>)"

datatype repeat_call = SetTrackRepeat bool | SetQueueRepeat bool

fun repeat_step :: "player \<Rightarrow> repeat_call \<Rightarrow> player" where
  "repeat_step p (SetTrackRepeat b) = setTrackRepeat b p"
| "repeat_step p (SetQueueRepeat b) = setQueueRepeat b p"

text \<open>
  \<open>stop\<close>: the count is absent or a whole number. \<^verbatim>\<open>this.queue.splice(0, amount - 1)\<close>
  removes the first \<open>amount - 1\<close> pending entries.
\<close>

definition stop :: "int option \<Rightarrow> player \<Rightarrow> effects \<Rightarrow> unit outcome" where
  "stop amount p fx =
     (case (case amount of
              Some n \<Rightarrow>
                if n > 1 then
                  (if n > int (length (entries (queue p)))
                   then Inl (RangeError ''Cannot skip more than the queue length.'')
                   else Inr (p\<lparr>queue := (queue p)\<lparr>entries := drop (nat (n - 1)) (entries (queue p))\<rparr>\<rparr>))
                else Inr p
            | None \<Rightarrow> Inr p) of
        Inl e \<Rightarrow> (Inl e, p, fx)
      | Inr p' \<Rightarrow> (Inr (), p', node_send (node p') (Stop_op (guild p')) fx))"

definition pause :: "bool \<Rightarrow> player \<Rightarrow> effects \<Rightarrow> player \<times> effects" where
  "pause flag p fx =
     (if paused p = flag \<or> totalSize (queue p) = 0 then (p, fx)
      else
        (let p' = p\<lparr>playing := \<not> flag, paused := flag\<rparr>
         in (p', node_send (node p') (Pause_op (guild p') flag) fx)))"

subsection \<open>Connecting and playing\<close>

text \<open>A string that may be null is truthy when it is there and not empty.\<close>

definition truthy :: "string option \<Rightarrow> bool" where
  "truthy s = (s \<noteq> None \<and> s \<noteq> Some [])"

text \<open>
  \<open>connect\<close> passes through \<open>CONNECTING\<close> and ends in \<open>CONNECTED\<close> without waiting
  for the gateway; the state it returns is the one it ends in.
\<close>

definition connect :: "player \<Rightarrow> effects \<Rightarrow> unit outcome" where
  "connect p fx =
     (if \<not> truthy (voiceChannel p) then (Inl (RangeError ''Voice channel ID not set.''), p, fx)
      else
        (let p1 = p\<lparr>state := CONNECTING\<rparr>;
             fx1 = options_send (guild p1)
                     (Payload 4 (guild p1) (voiceChannel p1)
                        (case opt_selfMute (options p1) of Some b \<Rightarrow> b | None \<Rightarrow> False)
                        (case opt_selfDeafen (options p1) of Some b \<Rightarrow> b | None \<Rightarrow> False)) fx
         in (Inr (), p1\<lparr>state := CONNECTED\<rparr>, fx1)))"

text \<open>
  The first argument of \<open>play\<close>: nothing, a track (\<^verbatim>\<open>TrackUtils.validate\<close> accepts
  it) or a \<^verbatim>\<open>PlayOptions\<close> object.
\<close>

datatype play_argument = NoArgument | ATrack queue_entry | Options play_options

definition no_play_options :: play_options where
  "no_play_options = \<lparr>startTime = None, endTime = None, noReplace = None\<rparr>"

text \<open>
  \<^verbatim>\<open>["startTime", "endTime", "noReplace"].every((v) => Object.keys(optionsOrTrack || {}).includes(v))\<close>:
  an options object counts only when it has all three keys; a track has none of them.
\<close>

fun finalOptions :: "play_argument \<Rightarrow> play_options option \<Rightarrow> play_options" where
  "finalOptions optionsOrTrack (Some playOptions) = playOptions"
| "finalOptions (Options x) None =
     (if startTime x \<noteq> None \<and> endTime x \<noteq> None \<and> noReplace x \<noteq> None then x else no_play_options)"
| "finalOptions optionsOrTrack None = no_play_options"

text \<open>
  Modelled from the spec: \<^verbatim>\<open>TrackUtils.getClosestTrack\<close> is not among the
  sources; it is the parameter \<open>getClosestTrack\<close> of \<open>play\<close>, from the title of an
  unresolved track to the handle and title of the resolved one, \<open>None\<close> when
  resolution fails. After a failed resolution \<open>play\<close> calls itself on the first
  pending entry, which it never removes: the recursion need not end, and \<open>None\<close> is
  the run that never returns.
\<close>

partial_function (option) play ::
  "(string \<Rightarrow> (string \<times> string) option) \<Rightarrow> play_argument \<Rightarrow> play_options option \<Rightarrow>
     player \<Rightarrow> effects \<Rightarrow> (unit outcome) option" where
  "play getClosestTrack optionsOrTrack playOptions p fx =
     (let q = (case optionsOrTrack of
                 ATrack x \<Rightarrow>
                   (queue p)\<lparr>previous := (if current (queue p) \<noteq> None then current (queue p)
                                          else previous (queue p)),
                             current := Some x\<rparr>
               | _ \<Rightarrow> queue p);
          p1 = p\<lparr>queue := q\<rparr>
      in case current q of
           None \<Rightarrow> Some (Inl (RangeError ''No current track.''), p1, fx)
         | Some (Track enc ttl) \<Rightarrow>
             Some (Inr (), p1,
               node_send (node p1) (Play_op (guild p1) enc (finalOptions optionsOrTrack playOptions)) fx)
         | Some (UnresolvedTrack ttl) \<Rightarrow>
             (case getClosestTrack ttl of
                Some (enc, ttl') \<Rightarrow>
                  (let p2 = p1\<lparr>queue := q\<lparr>current := Some (Track enc ttl')\<rparr>\<rparr>
                   in Some (Inr (), p2,
                        node_send (node p2)
                          (Play_op (guild p2) enc (finalOptions optionsOrTrack playOptions)) fx))
              | None \<Rightarrow>
                  (case entries q of
                     [] \<Rightarrow> Some (Inr (), p1, emit (TrackError (guild p1) (UnresolvedTrack ttl)) fx)
                   | x # _ \<Rightarrow>
                       play getClosestTrack (ATrack x) None p1
                         (emit (TrackError (guild p1) (UnresolvedTrack ttl)) fx))))"

section \<open>The Orchestrator: \<^verbatim>\<open>Manager.ts\<close>\<close>

text \<open>
  Modelled from the spec: \<^verbatim>\<open>Node.ts\<close> is not among the sources. A Node has its
  identifier, the \<open>connected\<close> flag, the \<open>calls\<close> counter and the CPU part of its latest
  statistics, if any.
\<close>

record cpu_stats =
  cores :: rat
  systemLoad :: rat

record Node =
  "identifier" :: string
  connected :: bool
  calls :: nat
  cpu :: "cpu_stats option"

record manager =
  clientId :: "string option"
  nodes :: "(string, Node) collection"
  players :: "(string, player) collection"
  io :: effects

subsection \<open>Selecting a Node\<close>

text \<open>
  \<^verbatim>\<open>Collection.sort\<close> sorts the entries with \<^verbatim>\<open>Array.prototype.sort\<close>, which is
  stable: an entry moves behind another one only when the comparison of the two is
  positive (a NaN comparison counts as zero). For a consistent comparison this
  insertion sort is that order.
\<close>

fun js_positive :: "jsnum \<Rightarrow> bool" where
  "js_positive (Fin r) = (0 < r)"
| "js_positive PosInf = True"
| "js_positive NegInf = False"
| "js_positive NaN = False"

fun insert_by :: "('v \<Rightarrow> 'v \<Rightarrow> jsnum) \<Rightarrow> 'k \<times> 'v \<Rightarrow> ('k, 'v) collection \<Rightarrow> ('k, 'v) collection" where
  "insert_by cmp x [] = [x]"
| "insert_by cmp x (y # ys) =
     (if js_positive (cmp (snd x) (snd y)) then y # insert_by cmp x ys else x # y # ys)"

definition sort_by :: "('v \<Rightarrow> 'v \<Rightarrow> jsnum) \<Rightarrow> ('k, 'v) collection \<Rightarrow> ('k, 'v) collection" where
  "sort_by cmp c = foldr (insert_by cmp) c []"

definition filter_by :: "('v \<Rightarrow> bool) \<Rightarrow> ('k, 'v) collection \<Rightarrow> ('k, 'v) collection" where
  "filter_by P c = filter (\<lambda>e. P (snd e)) c"

text \<open>\<^verbatim>\<open>.sort((a, b) => b.calls - a.calls)\<close> on the connected Nodes.\<close>

definition leastUsedNode :: "manager \<Rightarrow> (string, Node) collection" where
  "leastUsedNode m =
     sort_by (\<lambda>a b. Fin (of_nat (calls b) - of_nat (calls a))) (filter_by connected (nodes m))"

text \<open>
  \<open>leastLoadNodes\<close> sorts the connected Nodes with the comparison
  \<^verbatim>\<open>aload - bload\<close>, where a load is \<^verbatim>\<open>(systemLoad / cores) * 100\<close> or 0 for a
  Node without CPU statistics. That is arithmetic on binary64 numbers, rounded at every
  step and NaN for a Node with no cores and no load, and the order
  \<^verbatim>\<open>Array.prototype.sort\<close> gives when the comparison is NaN is the engine's own.
  None of it is embedded: the sort of two or more connected Nodes by load is the
  parameter \<open>by_load\<close>, and nothing is known of it but what a theorem assumes. A
  sort of fewer than two entries compares nothing and returns them as they are.
\<close>

definition leastLoadNodes ::
  "((string, Node) collection \<Rightarrow> (string, Node) collection) \<Rightarrow> manager \<Rightarrow> (string, Node) collection" where
  "leastLoadNodes by_load m =
     (let c = filter_by connected (nodes m) in if length c < 2 then c else by_load c)"

text \<open>
  The start of \<open>search\<close>: \<^verbatim>\<open>this.leastUsedNode.first()\<close>, rejected when there is
  none. The request that follows belongs to the search collaborator.
\<close>

datatype rejection = Rejected string

definition search_node :: "manager \<Rightarrow> rejection + Node" where
  "search_node m = (case first (leastUsedNode m) of None \<Rightarrow> Inl (Rejected ''No available nodes'') | Some n \<Rightarrow> Inr n)"

subsection \<open>Creating a Session\<close>

text \<open>
  \<^verbatim>\<open>/^\d+$/.test(s)\<close>: a non-empty string of decimal digits. The \<^verbatim>\<open>typeof\<close>
  checks of \<open>check\<close> hold by the types of the options.
\<close>

definition is_digits :: "string \<Rightarrow> bool" where
  "is_digits s = (s \<noteq> [] \<and> list_all (\<lambda>c. c \<in> set ''0123456789'') s)"

definition check :: "player_options \<Rightarrow> error option" where
  \<open>check opts =
     (if \<not> is_digits (opt_guild opts)
      then Some (TypeError ''Player option "guild" must be present and be a non-empty string.'')
      else if (case opt_textChannel opts of Some c \<Rightarrow> c \<noteq> [] \<and> \<not> is_digits c | None \<Rightarrow> False)
      then Some (TypeError ''Player option "textChannel" must be a non-empty string.'')
      else if (case opt_voiceChannel opts of Some c \<Rightarrow> c \<noteq> [] \<and> \<not> is_digits c | None \<Rightarrow> False)
      then Some (TypeError ''Player option "voiceChannel" must be a non-empty string.'')
      else None)\<close>

definition default_bands :: "js_object list" where
  "default_bands = map (\<lambda>i. [(''band'', of_nat i), (''gain'', 15 / 100)]) [0..<4]"

text \<open>The fields a new Session starts with, before volume and equalizer are set.\<close>

definition new_player :: "player_options \<Rightarrow> string \<Rightarrow> player" where
  "new_player opts n =
     \<lparr>options = opts,
      queue = \<lparr>entries = [], current = None, previous = None\<rparr>,
      trackRepeat = False, queueRepeat = False, playing = False, paused = False,
      volume = None, node = n, guild = opt_guild opts,
      voiceChannel = (if truthy (opt_voiceChannel opts) then opt_voiceChannel opts else None),
      textChannel = (if truthy (opt_textChannel opts) then opt_textChannel opts else None),
      state = DISCONNECTED,
      bands = replicate 15 (Some 0),
      voiceState = \<lparr>op = Some ''voiceUpdate'', guildId = Some (opt_guild opts),
                    event = None, sessionId = None\<rparr>\<rparr>"

text \<open>
  \<^verbatim>\<open>this.manager.nodes.get(options.node) ?? this.manager.leastLoadNodes.first()\<close>:
  the Node the options name, if it is registered, else the first least-loaded one.
\<close>

definition select_node ::
  "((string, Node) collection \<Rightarrow> (string, Node) collection) \<Rightarrow> player_options \<Rightarrow> manager \<Rightarrow>
     Node option" where
  "select_node by_load opts m =
     (case (case opt_node opts of Some k \<Rightarrow> get_entry (nodes m) k | None \<Rightarrow> None) of
        Some n \<Rightarrow> Some n
      | None \<Rightarrow> first (leastLoadNodes by_load m))"

text \<open>
  The constructor of \<open>Player\<close>. The Session is registered before its volume and
  equalizer are set, so it stays registered when \<open>setVolume\<close> throws.
\<close>

definition Player_new ::
  "((string, Node) collection \<Rightarrow> (string, Node) collection) \<Rightarrow> player_options \<Rightarrow> manager \<Rightarrow>
     (error + player) \<times> manager" where
  "Player_new by_load opts m =
     (case get_entry (players m) (opt_guild opts) of
        Some existing \<Rightarrow> (Inr existing, m)
      | None \<Rightarrow>
          (case check opts of
             Some e \<Rightarrow> (Inl e, m)
           | None \<Rightarrow>
               (case select_node by_load opts m of
                  None \<Rightarrow> (Inl (RangeError ''No available nodes.''), m)
                | Some n \<Rightarrow>
                    (let p0 = new_player opts (identifier n);
                         fx0 = emit (PlayerCreate (guild p0)) (io m);
                         register = (\<lambda>p e. m\<lparr>players := set_entry (guild p0) p (players m), io := e\<rparr>)
                     in case setVolume (case opt_volume opts of Some v \<Rightarrow> v | None \<Rightarrow> Fin 100) p0 fx0 of
                          (Inl e, p1, fx1) \<Rightarrow> (Inl e, register p1 fx1)
                        | (Inr u, p1, fx1) \<Rightarrow>
                            (case setEQ (Spread default_bands) p1 fx1 of
                               (Inl e, p2, fx2) \<Rightarrow> (Inl e, register p2 fx2)
                             | (Inr u', p2, fx2) \<Rightarrow> (Inr p2, register p2 fx2))))))"

text \<open>\<open>Manager.create\<close>: an existing Session for the guild is returned as it is.\<close>

definition create ::
  "((string, Node) collection \<Rightarrow> (string, Node) collection) \<Rightarrow> player_options \<Rightarrow> manager \<Rightarrow>
     (error + player) \<times> manager" where
  "create by_load opts m =
     (if has (players m) (opt_guild opts)
      then (case get_entry (players m) (opt_guild opts) of
              Some existing \<Rightarrow> (Inr existing, m)
            | None \<Rightarrow> Player_new by_load opts m)
      else Player_new by_load opts m)"

subsection \<open>Merging the voice credentials\<close>

definition REQUIRED_KEYS :: "string list" where
  "REQUIRED_KEYS = [''event'', ''guildId'', ''op'', ''sessionId'']"

text \<open>\<^verbatim>\<open>k in player.voiceState\<close>.\<close>

definition has_key :: "voice_state \<Rightarrow> string \<Rightarrow> bool" where
  "has_key vs k =
     (if k = ''op'' then op vs \<noteq> None
      else if k = ''guildId'' then guildId vs \<noteq> None
      else if k = ''event'' then event vs \<noteq> None
      else if k = ''sessionId'' then sessionId vs \<noteq> None
      else False)"

definition empty_voice_state :: voice_state where
  "empty_voice_state = \<lparr>op = None, guildId = None, event = None, sessionId = None\<rparr>"

text \<open>
  What \<open>updateVoiceState\<close> receives: a gateway packet (its \<^verbatim>\<open>t\<close>, \<open>None\<close> when the packet
  has no such key, and its \<^verbatim>\<open>d\<close>, \<open>None\<close> when it is null) or the update itself.
\<close>

datatype voice_data = Packet "string option" "voice_update option" | Plain voice_update

text \<open>
  The head of \<open>updateVoiceState\<close>: a packet whose \<^verbatim>\<open>t\<close> is neither of the two
  voice events is dropped, the update is the \<^verbatim>\<open>d\<close> of a packet or the data
  itself, and an update that is null or has neither \<^verbatim>\<open>token\<close> nor
  \<^verbatim>\<open>session_id\<close> is dropped. \<open>None\<close> is the early return.
\<close>

definition update_of :: "voice_data \<Rightarrow> voice_update option" where
  "update_of data =
     (if (case data of
            Packet (Some ty) _ \<Rightarrow> ty \<notin> set [''VOICE_STATE_UPDATE'', ''VOICE_SERVER_UPDATE'']
          | _ \<Rightarrow> False)
      then None
      else
        (case (case data of Packet _ upd \<Rightarrow> upd | Plain u \<Rightarrow> Some u) of
           None \<Rightarrow> None
         | Some (OtherUpdate g) \<Rightarrow> None
         | Some u \<Rightarrow> Some u))"

definition updateVoiceState :: "voice_data \<Rightarrow> manager \<Rightarrow> manager" where
  "updateVoiceState data m =
     (case update_of data of
        None \<Rightarrow> m
      | Some update \<Rightarrow>
          (case get_entry (players m) (guild_id update) of
             None \<Rightarrow> m
           | Some player \<Rightarrow>
               (case update of
                  VoiceServer tok g ep \<Rightarrow>
                    m\<lparr>players :=
                        set_entry g
                          (player\<lparr>voiceState := (voiceState player)\<lparr>event := Some update\<rparr>\<rparr>)
                          (players m)\<rparr>
                | VoiceStateUpdate g uid sid chan \<Rightarrow>
                    if Some uid \<noteq> clientId m then m
                    else
                      (let (player', fx') =
                             (if truthy chan
                              then (player\<lparr>voiceState := (voiceState player)\<lparr>sessionId := Some sid\<rparr>,
                                           voiceChannel := chan\<rparr>,
                                    if voiceChannel player \<noteq> chan
                                    then emit (PlayerMove g (voiceChannel player) chan) (io m)
                                    else io m)
                              else pause True
                                     (player\<lparr>voiceChannel := None, voiceState := empty_voice_state\<rparr>)
                                     (emit (PlayerDisconnect g (voiceChannel player)) (io m)))
                       in m\<lparr>players := set_entry g player' (players m),
                            io := (if list_all (has_key (voiceState player')) REQUIRED_KEYS
                                   then node_send (node player') (VoiceUpdate_op (voiceState player')) fx'
                                   else fx')\<rparr>)
                | OtherUpdate g \<Rightarrow> m)))"

text \<open>The merged voice-update operations among the operations sent so far.\<close>

fun is_voice_update :: "string \<times> operation \<Rightarrow> bool" where
  "is_voice_update (n, VoiceUpdate_op vs) = True"
| "is_voice_update (n, x) = False"

definition voice_updates :: "manager \<Rightarrow> (string \<times> operation) list" where
  "voice_updates m = filter is_voice_update (sent (io m))"

section \<open>What the claims speak of\<close>

text \<open>
  A valid equalizer update, in the words of the specification: a band object with
  exactly the fields \<open>band\<close> and \<open>gain\<close> whose band is one of the 15 slots.
\<close>

definition valid_band :: "js_object \<Rightarrow> bool" where
  "valid_band b =
     (band_keys_ok b \<and>
      (case map_of b ''band'' of Some x \<Rightarrow> is_array_index x \<and> x < 15 | None \<Rightarrow> False))"

text \<open>
  The gain an update specifies for slot \<open>i\<close>: that of the last band object naming the
  slot, \<open>None\<close> when no band object names it.
\<close>

definition new_gain :: "js_object list \<Rightarrow> nat \<Rightarrow> rat option" where
  "new_gain bs i =
     (case rev (filter (\<lambda>b. map_of b ''band'' = Some (of_nat i)) bs) of
        [] \<Rightarrow> None
      | c # cs \<Rightarrow> map_of c ''gain'')"

subsection \<open>A Session for guild 123 on the Node main\<close>

definition example_options :: player_options where
  "example_options =
     \<lparr>opt_guild = ''123'', opt_textChannel = Some ''7'', opt_voiceChannel = Some ''5'',
      opt_node = None, opt_volume = None, opt_selfMute = None, opt_selfDeafen = None\<rparr>"

definition no_effects :: effects where
  "no_effects = \<lparr>sent = [], gateway = [], emitted = []\<rparr>"

definition example_player :: player where
  "example_player = new_player example_options ''main''"

definition example_node :: Node where
  "example_node = \<lparr>identifier = ''main'', connected = True, calls = 0, cpu = None\<rparr>"

definition example_manager :: manager where
  "example_manager =
     \<lparr>clientId = Some ''1'', nodes = [(''main'', example_node)], players = [], io = no_effects\<rparr>"

text \<open>
  The Managers of the examples have at most one connected Node, so their sort by load
  is never consulted; it is given as the function that returns the collection as it is.
\<close>

definition as_is :: "(string, Node) collection \<Rightarrow> (string, Node) collection" where
  "as_is c = c"

text \<open>The equalizer payload of a Session as the constructor leaves it, written out.\<close>

definition fresh_equalizer :: "(nat \<times> rat) option list" where
  "fresh_equalizer =
     [Some (0, 15 / 100), Some (1, 15 / 100), Some (2, 15 / 100), Some (3, 15 / 100),
      Some (4, 0), Some (5, 0), Some (6, 0), Some (7, 0), Some (8, 0), Some (9, 0),
      Some (10, 0), Some (11, 0), Some (12, 0), Some (13, 0), Some (14, 0)]"

text \<open>The same Session with three pending entries, and a Manager that has it registered.\<close>

definition example_queued_player :: player where
  "example_queued_player =
     example_player\<lparr>queue := \<lparr>entries = [Track ''a'' ''A'', Track ''b'' ''B'', UnresolvedTrack ''C''],
                               current = None, previous = None\<rparr>\<rparr>"

text \<open>The options of the examples with a volume beyond the range of volumes.\<close>

definition loud_options :: player_options where
  "loud_options = example_options\<lparr>opt_volume := Some (Fin 5000)\<rparr>"

definition example_registered :: manager where
  "example_registered = example_manager\<lparr>players := [(''123'', example_player)]\<rparr>"

text \<open>
  The end-to-end scenario of the specification: create the Session, \<open>connect\<close> it,
  \<open>play\<close> a track. The Session a method has changed is the registered object, so each
  step is stored back under its guild.
\<close>

definition store :: "player \<Rightarrow> effects \<Rightarrow> manager \<Rightarrow> manager" where
  "store p e m = m\<lparr>players := set_entry (guild p) p (players m), io := e\<rparr>"

definition end_to_end ::
  "((string, Node) collection \<Rightarrow> (string, Node) collection) \<Rightarrow>
     (string \<Rightarrow> (string \<times> string) option) \<Rightarrow> player_options \<Rightarrow> queue_entry \<Rightarrow> manager \<Rightarrow>
     ((error + unit) \<times> manager) option" where
  "end_to_end by_load getClosestTrack opts x m =
     (case create by_load opts m of
        (Inl e, m1) \<Rightarrow> Some (Inl e, m1)
      | (Inr p, m1) \<Rightarrow>
          (case connect p (io m1) of
             (Inl e, p2, fx2) \<Rightarrow> Some (Inl e, store p2 fx2 m1)
           | (Inr u, p2, fx2) \<Rightarrow>
               (case play getClosestTrack (ATrack x) None p2 fx2 of
                  None \<Rightarrow> None
                | Some (res, p3, fx3) \<Rightarrow> Some (res, store p3 fx3 m1))))"

text \<open>A pool of three Nodes: two connected ones, with 1 and 5 calls, and one that is down.\<close>

definition example_pool :: manager where
  "example_pool =
     example_manager\<lparr>nodes :=
       [(''idle'', \<lparr>identifier = ''idle'', connected = True, calls = 1, cpu = None\<rparr>),
        (''busy'', \<lparr>identifier = ''busy'', connected = True, calls = 5, cpu = None\<rparr>),
        (''down'', \<lparr>identifier = ''down'', connected = False, calls = 0, cpu = None\<rparr>)]\<rparr>"

text \<open>
  The Session the constructor makes for guild 123, and the two credential fragments of
  that guild: the server fragment as a plain update, the state fragment (for the bot's
  own user id 1, in channel 5) as a gateway packet.
\<close>

definition example_session :: manager where
  "example_session = snd (Player_new as_is example_options example_manager)"

definition server_fragment :: voice_data where
  "server_fragment = Plain (VoiceServer ''tok'' ''123'' ''eu.example'')"

definition state_fragment :: voice_data where
  "state_fragment =
     Packet (Some ''VOICE_STATE_UPDATE'') (Some (VoiceStateUpdate ''123'' ''1'' ''sess'' (Some ''5'')))"

text \<open>
  A Session whose credential record lacks the \<open>op\<close> key, as after a reset; no merged
  operation can leave it.
\<close>

definition without_op :: "string \<Rightarrow> manager \<Rightarrow> bool" where
  "without_op g m = (case get_entry (players m) g of Some p \<Rightarrow> op (voiceState p) = None | None \<Rightarrow> False)"

definition example_created :: player where
  "example_created =
     example_player\<lparr>volume := Some 100,
                    bands := replicate 4 (Some (15 / 100)) @ replicate 11 (Some 0)\<rparr>"

text \<open>The state fragment of an external disconnect: the channel id is null.\<close>

definition disconnect_fragment :: voice_data where
  "disconnect_fragment =
     Packet (Some ''VOICE_STATE_UPDATE'') (Some (VoiceStateUpdate ''123'' ''1'' ''sess'' None))"

text \<open>A sequence of deliveries, oldest first.\<close>

definition deliver :: "voice_data list \<Rightarrow> manager \<Rightarrow> manager" where
  "deliver ds m = foldl (\<lambda>s x. updateVoiceState x s) m ds"

section \<open>Repeat flags\<close>

lemma repeat_step_exclusive: "\<not> (trackRepeat (repeat_step p c) \<and> queueRepeat (repeat_step p c))"
  by (cases c) (simp_all add: setTrackRepeat_def setQueueRepeat_def)

text \<open>
  Claim C5. After every call in any sequence of \<open>setTrackRepeat\<close> / \<open>setQueueRepeat\<close>
  calls, from any Session whatsoever, at most one of \<open>trackRepeat\<close> and \<open>queueRepeat\<close>
  is true; enabling a flag sets it and clears the other one; disabling either flag
  clears both.
\<close>

theorem repeat_flags_exclusive:
  "\<not> (trackRepeat (foldl repeat_step p (cs @ [c])) \<and> queueRepeat (foldl repeat_step p (cs @ [c])))
   \<and> (trackRepeat (setTrackRepeat True p) \<and> \<not> queueRepeat (setTrackRepeat True p))
   \<and> (queueRepeat (setQueueRepeat True p) \<and> \<not> trackRepeat (setQueueRepeat True p))
   \<and> (\<not> trackRepeat (setTrackRepeat False p) \<and> \<not> queueRepeat (setTrackRepeat False p))
   \<and> (\<not> trackRepeat (setQueueRepeat False p) \<and> \<not> queueRepeat (setQueueRepeat False p))"
  by (simp add: repeat_step_exclusive setTrackRepeat_def setQueueRepeat_def)

section \<open>The equalizer\<close>

lemma band_keys_ok_iff:
  "band_keys_ok b \<longleftrightarrow> distinct (map fst b) \<and> set (map fst b) = {''band'', ''gain''}"
proof
  assume "band_keys_ok b"
  then have s: "sort (map fst b) = [''band'', ''gain'']" by (simp add: band_keys_ok_def)
  have "distinct (sort (map fst b))" by (simp add: s)
  moreover have "set (sort (map fst b)) = {''band'', ''gain''}" by (simp add: s)
  ultimately show "distinct (map fst b) \<and> set (map fst b) = {''band'', ''gain''}" by simp
next
  assume a: "distinct (map fst b) \<and> set (map fst b) = {''band'', ''gain''}"
  have "sorted [''band'', ''gain'']" "distinct [''band'', ''gain'']" by simp_all
  moreover have "set (sort (map fst b)) = set [''band'', ''gain'']" using a by simp
  moreover have "sorted (sort (map fst b))" "distinct (sort (map fst b))" using a by simp_all
  ultimately have "sort (map fst b) = [''band'', ''gain'']"
    using sorted_distinct_set_unique by blast
  then show "band_keys_ok b" by (simp add: band_keys_ok_def)
qed

lemma band_keys_ok_lookup:
  assumes "band_keys_ok b"
  shows "\<exists>x y. map_of b ''band'' = Some x \<and> map_of b ''gain'' = Some y"
proof -
  from assms have "set (map fst b) = {''band'', ''gain''}" by (simp add: band_keys_ok_iff)
  then have "''band'' \<in> fst ` set b" "''gain'' \<in> fst ` set b" by auto
  then have "map_of b ''band'' \<noteq> None" "map_of b ''gain'' \<noteq> None"
    by (simp_all add: map_of_eq_None_iff)
  then show ?thesis by auto
qed

lemma is_array_index_of_nat: "i < 2 ^ 32 - 1 \<Longrightarrow> is_array_index (of_nat i)"
proof -
  assume "i < 2 ^ 32 - 1"
  then have "(of_nat i :: rat) < of_nat (2 ^ 32 - 1)" by (simp only: of_nat_less_iff)
  then show ?thesis by (simp add: is_array_index_def)
qed

lemma array_index_is_nat:
  assumes "is_array_index x" "x < 15"
  shows "\<exists>j<15. x = of_nat j"
proof -
  from assms(1) have x: "x = of_int \<lfloor>x\<rfloor>" and nn: "0 \<le> \<lfloor>x\<rfloor>"
    by (simp_all add: is_array_index_def)
  from x nn have eq: "x = of_nat (nat \<lfloor>x\<rfloor>)" by simp
  with assms(2) have "(of_nat (nat \<lfloor>x\<rfloor>) :: rat) < of_nat 15" by simp
  then have "nat \<lfloor>x\<rfloor> < 15" by (simp only: of_nat_less_iff)
  with eq show ?thesis by blast
qed

lemma array_assign_inside:
  assumes "j < length xs" "j < 15"
  shows "array_assign xs (of_nat j) g = xs[j := Some g]"
proof -
  have "is_array_index (of_nat j)" using assms(2) by (intro is_array_index_of_nat) simp
  then show ?thesis using assms by (simp add: array_assign_def)
qed

lemma new_gain_snoc:
  "new_gain (bs @ [b]) i =
     (if map_of b ''band'' = Some (of_nat i) then map_of b ''gain'' else new_gain bs i)"
  by (simp add: new_gain_def)

text \<open>
  The loop of \<open>setEQ\<close> on valid band objects: the array keeps its 15 slots, and a slot
  holds the last gain given for it, or what it held before.
\<close>

lemma foldl_assign_band:
  assumes "list_all valid_band bs" "length xs = 15"
  shows "length (foldl assign_band xs bs) = 15 \<and>
         (\<forall>i<15. foldl assign_band xs bs ! i =
                   (case new_gain bs i of Some g \<Rightarrow> Some g | None \<Rightarrow> xs ! i))"
  using assms(1)
proof (induction bs rule: rev_induct)
  case Nil
  show ?case using assms(2) by (simp add: new_gain_def)
next
  case (snoc b bs)
  let ?ys = "foldl assign_band xs bs"
  from snoc.prems have vb: "valid_band b" and vbs: "list_all valid_band bs" by simp_all
  from snoc.IH [OF vbs] have len: "length ?ys = 15"
    and nth: "\<And>i. i < 15 \<Longrightarrow> ?ys ! i = (case new_gain bs i of Some g \<Rightarrow> Some g | None \<Rightarrow> xs ! i)"
    by simp_all
  from vb obtain x where x: "map_of b ''band'' = Some x" "is_array_index x" "x < 15"
    by (auto simp: valid_band_def split: option.splits)
  from array_index_is_nat [OF x(2,3)] x(1)
  obtain j where j: "j < 15" "map_of b ''band'' = Some (of_nat j)" by auto
  from vb obtain g where g: "map_of b ''gain'' = Some g"
    using band_keys_ok_lookup by (auto simp: valid_band_def)
  have step: "assign_band ?ys b = ?ys[j := Some g]"
    using j g len by (simp add: assign_band_def array_assign_inside)
  show ?case
  proof (intro conjI allI impI)
    show "length (foldl assign_band xs (bs @ [b])) = 15" using step len by simp
  next
    fix i :: nat assume i: "i < 15"
    show "foldl assign_band xs (bs @ [b]) ! i =
          (case new_gain (bs @ [b]) i of Some g \<Rightarrow> Some g | None \<Rightarrow> xs ! i)"
    proof (cases "i = j")
      case True
      then show ?thesis using step len j g i by (simp add: new_gain_snoc)
    next
      case False
      then have "(of_nat j :: rat) \<noteq> of_nat i" by simp
      then show ?thesis using step len j g i False nth [OF i] by (simp add: new_gain_snoc)
    qed
  qed
qed

text \<open>
  Claim C8. For a valid equalizer update (a non-empty list of band objects, each with
  exactly the fields \<open>band\<close> and \<open>gain\<close> and a band among the 15 slots), \<open>setEQ\<close>
  succeeds and changes nothing of the Session but the gain array, which keeps its 15
  elements: a slot the update names holds the gain given for it (the last one, when it
  is named more than once), every other slot holds what it held before. \<open>clearEQ\<close>
  leaves 15 zeros, whatever the Session was.
\<close>

theorem setEQ_overwrites_only_given_bands:
  assumes "length (bands p) = 15" "bands_of arg \<noteq> []" "list_all valid_band (bands_of arg)"
  shows "fst (setEQ arg p fx) = Inr ()
         \<and> fst (snd (setEQ arg p fx)) = p\<lparr>bands := bands (fst (snd (setEQ arg p fx)))\<rparr>
         \<and> length (bands (fst (snd (setEQ arg p fx)))) = 15
         \<and> (\<forall>i<15. bands (fst (snd (setEQ arg p fx))) ! i =
                     (case new_gain (bands_of arg) i of Some g \<Rightarrow> Some g | None \<Rightarrow> bands p ! i))
         \<and> bands (fst (snd (clearEQ q fx'))) = replicate 15 (Some 0)"
proof -
  have ok: "list_all band_keys_ok (bands_of arg)"
    using assms(3) by (simp add: list_all_iff valid_band_def)
  show ?thesis
    using assms(2) ok foldl_assign_band [OF assms(3) assms(1)]
    by (simp add: setEQ_def clearEQ_def Let_def)
qed

theorem setEQ_overwrites_only_given_bands_witness:
  "length (bands example_player) = 15
   \<and> list_all valid_band [[(''band'', 2), (''gain'', 1 / 2)], [(''gain'', 1 / 4), (''band'', 7)]]
   \<and> fst (setEQ (Spread [[(''band'', 2), (''gain'', 1 / 2)], [(''gain'', 1 / 4), (''band'', 7)]])
            example_player no_effects) = Inr ()
   \<and> bands (fst (snd (setEQ (Spread [[(''band'', 2), (''gain'', 1 / 2)], [(''gain'', 1 / 4), (''band'', 7)]])
            example_player no_effects))) ! 2 = Some (1 / 2)
   \<and> bands (fst (snd (setEQ (Spread [[(''band'', 2), (''gain'', 1 / 2)], [(''gain'', 1 / 4), (''band'', 7)]])
            example_player no_effects))) ! 3 = Some 0"
proof -
  let ?bs = "[[(''band'', 2), (''gain'', 1 / 2)], [(''gain'', 1 / 4), (''band'', 7 :: rat)]]"
  have len: "length (bands example_player) = 15"
    by (simp add: example_player_def new_player_def)
  have ne: "bands_of (Spread ?bs) \<noteq> []" by simp
  have valid: "list_all valid_band (bands_of (Spread ?bs))"
    by (simp add: valid_band_def band_keys_ok_def is_array_index_def)
  have zero: "bands example_player ! 3 = Some 0"
    by (simp add: example_player_def new_player_def numeral_eq_Suc)
  note t = setEQ_overwrites_only_given_bands [OF len ne valid, of no_effects example_player no_effects]
  from t have nth: "\<And>i. i < 15 \<Longrightarrow>
      bands (fst (snd (setEQ (Spread ?bs) example_player no_effects))) ! i =
        (case new_gain ?bs i of Some g \<Rightarrow> Some g | None \<Rightarrow> bands example_player ! i)"
    by simp
  have "bands (fst (snd (setEQ (Spread ?bs) example_player no_effects))) ! 2 = Some (1 / 2)"
    using nth [of 2] by (simp add: new_gain_def)
  moreover have "bands (fst (snd (setEQ (Spread ?bs) example_player no_effects))) ! 3 = Some 0"
    using nth [of 3] zero by (simp add: new_gain_def)
  moreover have "fst (setEQ (Spread ?bs) example_player no_effects) = Inr ()"
    using t by simp
  ultimately show ?thesis using len valid by simp
qed

lemma setEQ_beyond_end:
  assumes "length (bands p) \<le> i" "i < 2 ^ 32 - 1"
  shows "setEQ (Spread [[(''band'', of_nat i), (''gain'', g)]]) p fx =
           (Inr (), p\<lparr>bands := bands p @ replicate (i - length (bands p)) None @ [Some g]\<rparr>,
            node_send (node p) (Equalizer_op (guild p)
              (band_entries (bands p @ replicate (i - length (bands p)) None @ [Some g]))) fx)"
  using assms is_array_index_of_nat [OF assms(2)]
  by (simp add: setEQ_def Let_def band_keys_ok_def assign_band_def array_assign_def)

text \<open>
  Claim C4, as the code has it. \<open>setEQ\<close> fails, changing nothing and sending nothing,
  exactly when the list of band objects is empty or one of them does not have exactly
  the two fields \<open>band\<close> and \<open>gain\<close>. The band index plays no part in that: a call
  that passes the check succeeds and sends its equalizer operation, and a band index
  beyond the 15 slots makes the gain array longer.
\<close>

theorem setEQ_validates_fields_only:
  "setEQ arg p fx =
     (if bands_of arg \<noteq> [] \<and>
         list_all (\<lambda>b. distinct (map fst b) \<and> set (map fst b) = {''band'', ''gain''}) (bands_of arg)
      then (Inr (), p\<lparr>bands := foldl assign_band (bands p) (bands_of arg)\<rparr>,
            node_send (node p)
              (Equalizer_op (guild p) (band_entries (foldl assign_band (bands p) (bands_of arg)))) fx)
      else (Inl bands_error, p, fx))
   \<and> (length (bands p) \<le> i \<and> i < 2 ^ 32 - 1 \<longrightarrow>
        setEQ (Spread [[(''band'', of_nat i), (''gain'', g)]]) p fx =
          (Inr (), p\<lparr>bands := bands p @ replicate (i - length (bands p)) None @ [Some g]\<rparr>,
           node_send (node p) (Equalizer_op (guild p)
             (band_entries (bands p @ replicate (i - length (bands p)) None @ [Some g]))) fx))"
proof -
  have "list_all (\<lambda>b. distinct (map fst b) \<and> set (map fst b) = {''band'', ''gain''}) (bands_of arg)
        = list_all band_keys_ok (bands_of arg)"
    by (simp add: list_all_iff band_keys_ok_iff)
  then show ?thesis
    by (simp add: setEQ_beyond_end) (simp add: setEQ_def Let_def)
qed

theorem setEQ_validates_fields_only_witness:
  "fst (setEQ (Spread [[(''band'', 1), (''gain'', 1), (''q'', 0)]]) example_player no_effects) =
     Inl bands_error
   \<and> fst (setEQ (Spread []) example_player no_effects) = Inl bands_error
   \<and> fst (setEQ (SingleArray [[(''band'', 1), (''gain'', 1)]]) example_player no_effects) = Inr ()
   \<and> bands (fst (snd (setEQ (Spread [[(''band'', of_nat 16), (''gain'', 1)]]) example_player no_effects))) =
       bands example_player @ [None, Some 1]"
proof -
  have len: "length (bands example_player) = 15"
    by (simp add: example_player_def new_player_def)
  have ne: "{''band'', ''gain'', ''q''} \<noteq> {''band'', ''gain''}"
  proof
    assume e: "{''band'', ''gain'', ''q''} = {''band'', ''gain''}"
    have "''q'' \<in> {''band'', ''gain'', ''q''}" by simp
    then have "''q'' \<in> {''band'', ''gain''}" by (simp only: e)
    then show False by simp
  qed
  have a: "fst (setEQ (Spread [[(''band'', 1), (''gain'', 1), (''q'', 0)]]) example_player no_effects) =
             Inl bands_error"
    using setEQ_validates_fields_only [of "Spread [[(''band'', 1), (''gain'', 1), (''q'', 0)]]"
        example_player no_effects 0 0, THEN conjunct1] ne
    by simp
  have b: "fst (setEQ (Spread []) example_player no_effects) = Inl bands_error"
    using setEQ_validates_fields_only [of "Spread []" example_player no_effects 0 0, THEN conjunct1]
    by simp
  have c: "fst (setEQ (SingleArray [[(''band'', 1), (''gain'', 1)]]) example_player no_effects) = Inr ()"
    using setEQ_validates_fields_only [of "SingleArray [[(''band'', 1), (''gain'', 1)]]"
        example_player no_effects 0 0, THEN conjunct1]
    by simp
  have d: "bands (fst (snd (setEQ (Spread [[(''band'', of_nat 16), (''gain'', 1)]]) example_player no_effects))) =
       bands example_player @ [None, Some 1]"
    using setEQ_validates_fields_only [of "Spread []" example_player no_effects 16 1, THEN conjunct2] len
    by simp
  show ?thesis using a b c d by blast
qed

text \<open>
  The claim as the specification words it fails: band index 20 lies outside the 15
  slots, and the call succeeds, leaving an array of 21 slots.
\<close>

theorem setEQ_out_of_range_counterexample:
  "fst (setEQ (Spread [[(''band'', 20), (''gain'', 1)]]) example_player no_effects) = Inr ()
   \<and> length (bands example_player) = 15
   \<and> length (bands (fst (snd (setEQ (Spread [[(''band'', 20), (''gain'', 1)]])
                                example_player no_effects)))) = 21"
  by (simp add: setEQ_def Let_def band_keys_ok_def assign_band_def array_assign_def is_array_index_def
      example_player_def new_player_def)

section \<open>Stopping\<close>

text \<open>
  Claim C6, as the code has it. For every count \<open>n > 1\<close> greater than the queue
  length, \<open>stop n\<close> fails, leaving the Session (its queue too) as it was and sending
  nothing. For \<open>1 < n\<close> within the queue length it removes the first \<open>n - 1\<close> pending
  entries, which leaves \<open>n - 1\<close> entries fewer, and sends one stop operation.
\<close>

theorem stop_bounds:
  "(1 < n \<and> int (length (entries (queue p))) < n \<longrightarrow>
      stop (Some n) p fx = (Inl (RangeError ''Cannot skip more than the queue length.''), p, fx))
   \<and> (1 < n \<and> n \<le> int (length (entries (queue p))) \<longrightarrow>
      stop (Some n) p fx =
        (Inr (), p\<lparr>queue := (queue p)\<lparr>entries := drop (nat (n - 1)) (entries (queue p))\<rparr>\<rparr>,
         fx\<lparr>sent := sent fx @ [(node p, Stop_op (guild p))]\<rparr>)
      \<and> int (length (drop (nat (n - 1)) (entries (queue p)))) =
          int (length (entries (queue p))) - (n - 1))"
  by (auto simp add: stop_def node_send_def)

theorem stop_bounds_witness:
  "(1 :: int) < 5 \<and> int (length (entries (queue example_queued_player))) < 5
   \<and> stop (Some 5) example_queued_player no_effects =
       (Inl (RangeError ''Cannot skip more than the queue length.''), example_queued_player, no_effects)
   \<and> (1 :: int) < 3 \<and> 3 \<le> int (length (entries (queue example_queued_player)))
   \<and> entries (queue (fst (snd (stop (Some 3) example_queued_player no_effects)))) = [UnresolvedTrack ''C'']
   \<and> sent (snd (snd (stop (Some 3) example_queued_player no_effects))) = [(''main'', Stop_op ''123'')]"
proof -
  have len: "int (length (entries (queue example_queued_player))) = 3"
    by (simp add: example_queued_player_def)
  have a: "stop (Some 5) example_queued_player no_effects =
       (Inl (RangeError ''Cannot skip more than the queue length.''), example_queued_player, no_effects)"
    using stop_bounds [of 5 example_queued_player no_effects] len by simp
  have b: "stop (Some 3) example_queued_player no_effects =
        (Inr (), example_queued_player\<lparr>queue := (queue example_queued_player)
               \<lparr>entries := drop (nat (3 - 1)) (entries (queue example_queued_player))\<rparr>\<rparr>,
         no_effects\<lparr>sent := sent no_effects @
            [(node example_queued_player, Stop_op (guild example_queued_player))]\<rparr>)"
    using stop_bounds [of 3 example_queued_player no_effects] len by simp
  have c: "entries (queue (fst (snd (stop (Some 3) example_queued_player no_effects)))) = [UnresolvedTrack ''C'']"
    by (simp add: b) (simp add: example_queued_player_def numeral_eq_Suc)
  have d: "sent (snd (snd (stop (Some 3) example_queued_player no_effects))) = [(''main'', Stop_op ''123'')]"
    by (simp add: b)
      (simp add: example_queued_player_def example_player_def new_player_def example_options_def
        no_effects_def)
  show ?thesis using len a c d by simp
qed

text \<open>
  The claim as the specification words it fails at \<open>n = 1\<close> on an empty queue: 1 is
  greater than the queue length, and \<open>stop 1\<close> does not fail but sends a stop operation.
\<close>

theorem stop_one_on_empty_queue_counterexample:
  "int (length (entries (queue example_player))) < 1
   \<and> stop (Some 1) example_player no_effects =
       (Inr (), example_player, no_effects\<lparr>sent := [(''main'', Stop_op ''123'')]\<rparr>)"
  by (simp add: stop_def example_player_def new_player_def node_send_def no_effects_def
      example_options_def)

section \<open>Creating a Session\<close>

lemma get_entry_set_entry:
  "get_entry (set_entry k v c) k' = (if k' = k then Some v else get_entry c k')"
  by (induction c) (auto simp: get_entry_def)

text \<open>
  Claim C7. When the guild of the options already has a Session, \<open>Manager.create\<close> (and
  the constructor itself) returns that Session as it is and leaves the whole Manager
  state as it was: the Session's volume, bands and every other field are the registered
  ones, and no operation, volume and equalizer included, is sent to any Node.
\<close>

theorem create_existing_unchanged:
  assumes "get_entry (players m) (opt_guild opts) = Some p"
  shows "create by_load opts m = (Inr p, m) \<and> Player_new by_load opts m = (Inr p, m)
         \<and> get_entry (players (snd (create by_load opts m))) (opt_guild opts) = Some p
         \<and> sent (io (snd (create by_load opts m))) = sent (io m)"
  using assms by (simp add: create_def Player_new_def has_def get_entry_def)

theorem create_existing_unchanged_witness:
  "get_entry (players example_registered) (opt_guild (example_options\<lparr>opt_volume := Some (Fin 30)\<rparr>)) =
     Some example_player
   \<and> create as_is (example_options\<lparr>opt_volume := Some (Fin 30)\<rparr>) example_registered =
       (Inr example_player, example_registered)
   \<and> sent (io (snd (create as_is (example_options\<lparr>opt_volume := Some (Fin 30)\<rparr>) example_registered))) = []"
proof -
  have h: "get_entry (players example_registered) (opt_guild (example_options\<lparr>opt_volume := Some (Fin 30)\<rparr>)) =
     Some example_player"
    by (simp add: example_registered_def example_options_def get_entry_def)
  have s: "sent (io example_registered) = []"
    by (simp add: example_registered_def example_manager_def no_effects_def)
  show ?thesis using create_existing_unchanged [OF h] h s by simp
qed

lemma default_bands_ok: "default_bands \<noteq> [] \<and> list_all band_keys_ok default_bands"
  by (simp add: default_bands_def band_keys_ok_def upt_rec)

lemma default_bands_assigned:
  "foldl assign_band (replicate 15 (Some 0)) default_bands =
     replicate 4 (Some (15 / 100)) @ replicate 11 (Some 0)"
  by (simp add: default_bands_def assign_band_def array_assign_def is_array_index_def upt_rec
      numeral_eq_Suc)

lemma bands_not_flat:
  "replicate 4 (Some (15 / 100 :: rat)) @ replicate 11 (Some 0) \<noteq> replicate 15 (Some 0)"
  by (simp add: numeral_eq_Suc)

lemma fresh_band_entries:
  "band_entries (replicate 4 (Some (15 / 100)) @ replicate 11 (Some 0)) = fresh_equalizer"
  by (simp add: band_entries_def fresh_equalizer_def numeral_eq_Suc upt_rec)

text \<open>
  What the constructor does for a guild without a Session, when the options pass
  \<open>check\<close>, a Node is found and the volume is not NaN.
\<close>

lemma Player_new_fresh:
  assumes "get_entry (players m) (opt_guild opts) = None" "check opts = None"
    "select_node by_load opts m = Some n" "opt_volume opts \<noteq> Some NaN"
  shows "Player_new by_load opts m =
    (let v = clamp_volume (case opt_volume opts of Some v \<Rightarrow> v | None \<Rightarrow> Fin 100);
         p = (new_player opts (identifier n))
               \<lparr>volume := Some v, bands := replicate 4 (Some (15 / 100)) @ replicate 11 (Some 0)\<rparr>
     in (Inr p,
         m\<lparr>players := set_entry (opt_guild opts) p (players m),
           io := (io m)\<lparr>emitted := emitted (io m) @ [PlayerCreate (opt_guild opts)],
                        sent := sent (io m) @
                          [(identifier n, Volume_op (opt_guild opts) v),
                           (identifier n, Equalizer_op (opt_guild opts) fresh_equalizer)]\<rparr>\<rparr>))"
proof -
  have nb: "bands (new_player opts (identifier n)) = replicate 15 (Some 0)"
    "guild (new_player opts (identifier n)) = opt_guild opts"
    "node (new_player opts (identifier n)) = identifier n"
    by (simp_all add: new_player_def)
  have nn: "(case opt_volume opts of Some v \<Rightarrow> v | None \<Rightarrow> Fin 100) \<noteq> NaN"
    using assms(4) by (cases "opt_volume opts") auto
  have fe: "band_entries (replicate 4 (Some (3 / 20)) @ replicate 11 (Some 0)) = fresh_equalizer"
    using fresh_band_entries by simp
  show ?thesis
    using assms(1-3) nn default_bands_ok
    by (simp add: Player_new_def Let_def setVolume_def setEQ_def nb default_bands_assigned
        fe node_send_def emit_def)
qed

text \<open>And a construction that succeeded for a fresh guild was such a one.\<close>

lemma Player_new_success:
  assumes "get_entry (players m) (opt_guild opts) = None" "Player_new by_load opts m = (Inr p, m')"
  shows "check opts = None \<and> (\<exists>n. select_node by_load opts m = Some n) \<and> opt_volume opts \<noteq> Some NaN"
  using assms
  by (auto simp add: Player_new_def Let_def setVolume_def
      split: option.splits if_splits prod.splits sum.splits)

lemma example_select:
  "opt_node opts = None \<Longrightarrow> select_node by_load opts example_manager = Some example_node"
  by (simp add: select_node_def example_manager_def leastLoadNodes_def filter_by_def first_def
      example_node_def)

lemma example_check:
  "check example_options = None"
  "check (example_options\<lparr>opt_volume := v\<rparr>) = None"
  "check (example_options\<lparr>opt_voiceChannel := None\<rparr>) = None"
  by (simp_all add: check_def example_options_def is_digits_def)

lemma example_fresh: "get_entry (players example_manager) g = None"
  by (simp add: example_manager_def get_entry_def)

lemma example_no_node:
  "opt_node example_options = None"
  "opt_node (example_options\<lparr>opt_volume := v\<rparr>) = None"
  "opt_node (example_options\<lparr>opt_voiceChannel := None\<rparr>) = None"
  by (simp_all add: example_options_def)

lemma clamp_volume_Fin:
  "clamp_volume (Fin r) = (if r < 0 then 0 else if 1000 < r then 1000 else r)"
  by simp

text \<open>
  Claim C9, as the code has it. Every successful construction of a Session for a guild
  that had none sends to the assigned Node a volume operation and then an equalizer
  operation, and nothing else. The volume operation carries the volume asked for (the
  given one, or 100 when none is given) clamped to the range from 0 to 1000, which is
  also the volume the Session then has. The equalizer operation carries gain 0.15 for
  bands 0 to 3 and gain 0 for bands 4 to 14, which is the gain array of the new
  Session: it is not the flat array of 15 zeros.
\<close>

theorem fresh_session_volume_then_equalizer:
  assumes "get_entry (players m) (opt_guild opts) = None"
    and "Player_new by_load opts m = (Inr p, m')"
  shows "sent (io m') = sent (io m) @
           [(node p, Volume_op (opt_guild opts)
                       (clamp_volume (case opt_volume opts of Some v \<Rightarrow> v | None \<Rightarrow> Fin 100))),
            (node p, Equalizer_op (opt_guild opts)
               [Some (0, 15 / 100), Some (1, 15 / 100), Some (2, 15 / 100), Some (3, 15 / 100),
                Some (4, 0), Some (5, 0), Some (6, 0), Some (7, 0), Some (8, 0), Some (9, 0),
                Some (10, 0), Some (11, 0), Some (12, 0), Some (13, 0), Some (14, 0)])]
         \<and> (\<forall>r. opt_volume opts = Some (Fin r) \<longrightarrow>
               clamp_volume (case opt_volume opts of Some v \<Rightarrow> v | None \<Rightarrow> Fin 100) =
                 (if r < 0 then 0 else if 1000 < r then 1000 else r))
         \<and> (opt_volume opts = None \<longrightarrow>
               clamp_volume (case opt_volume opts of Some v \<Rightarrow> v | None \<Rightarrow> Fin 100) = 100)
         \<and> volume p = Some (clamp_volume (case opt_volume opts of Some v \<Rightarrow> v | None \<Rightarrow> Fin 100))
         \<and> map_option identifier (select_node by_load opts m) = Some (node p)
         \<and> bands p = replicate 4 (Some (15 / 100)) @ replicate 11 (Some 0)
         \<and> bands p \<noteq> replicate 15 (Some 0)
         \<and> get_entry (players m') (opt_guild opts) = Some p"
proof -
  let ?v = "clamp_volume (case opt_volume opts of Some v \<Rightarrow> v | None \<Rightarrow> Fin 100)"
  from Player_new_success [OF assms] obtain n where
    ok: "check opts = None" "select_node by_load opts m = Some n" "opt_volume opts \<noteq> Some NaN"
    by auto
  from Player_new_fresh [OF assms(1) ok] assms(2)
  have p: "p = (new_player opts (identifier n))
                 \<lparr>volume := Some ?v, bands := replicate 4 (Some (15 / 100)) @ replicate 11 (Some 0)\<rparr>"
    and m': "m' = m\<lparr>players := set_entry (opt_guild opts) p (players m),
           io := (io m)\<lparr>emitted := emitted (io m) @ [PlayerCreate (opt_guild opts)],
                        sent := sent (io m) @
                          [(identifier n, Volume_op (opt_guild opts) ?v),
                           (identifier n, Equalizer_op (opt_guild opts) fresh_equalizer)]\<rparr>\<rparr>"
    by (simp_all add: Let_def)
  have node: "node p = identifier n" by (simp add: p new_player_def)
  have b: "bands p = replicate 4 (Some (15 / 100)) @ replicate 11 (Some 0)" by (simp add: p)
  have v: "volume p = Some ?v" by (simp add: p)
  have "sent (io m') = sent (io m) @
           [(node p, Volume_op (opt_guild opts) ?v),
            (node p, Equalizer_op (opt_guild opts)
               [Some (0, 15 / 100), Some (1, 15 / 100), Some (2, 15 / 100), Some (3, 15 / 100),
                Some (4, 0), Some (5, 0), Some (6, 0), Some (7, 0), Some (8, 0), Some (9, 0),
                Some (10, 0), Some (11, 0), Some (12, 0), Some (13, 0), Some (14, 0)])]"
    by (simp add: m' node fresh_equalizer_def)
  moreover have "\<forall>r. opt_volume opts = Some (Fin r) \<longrightarrow>
               ?v = (if r < 0 then 0 else if 1000 < r then 1000 else r)"
    by (auto simp: clamp_volume_Fin)
  moreover have "opt_volume opts = None \<longrightarrow> ?v = 100" by simp
  moreover have "map_option identifier (select_node by_load opts m) = Some (node p)"
    by (simp add: ok node)
  moreover have "bands p \<noteq> replicate 15 (Some 0)" unfolding b by (rule bands_not_flat)
  moreover have "get_entry (players m') (opt_guild opts) = Some p"
    by (simp add: m' get_entry_set_entry)
  ultimately show ?thesis using b v by blast
qed

lemma example_construction:
  assumes "v \<noteq> Some NaN"
  shows "Player_new as_is (example_options\<lparr>opt_volume := v\<rparr>) example_manager =
     (Inr ((new_player (example_options\<lparr>opt_volume := v\<rparr>) ''main'')
             \<lparr>volume := Some (clamp_volume (case v of Some x \<Rightarrow> x | None \<Rightarrow> Fin 100)),
              bands := replicate 4 (Some (15 / 100)) @ replicate 11 (Some 0)\<rparr>),
      snd (Player_new as_is (example_options\<lparr>opt_volume := v\<rparr>) example_manager))"
proof -
  have sel: "select_node as_is (example_options\<lparr>opt_volume := v\<rparr>) example_manager = Some example_node"
    by (rule example_select [OF example_no_node(2)])
  have vol: "opt_volume (example_options\<lparr>opt_volume := v\<rparr>) \<noteq> Some NaN" using assms by simp
  have "fst (Player_new as_is (example_options\<lparr>opt_volume := v\<rparr>) example_manager) =
      Inr ((new_player (example_options\<lparr>opt_volume := v\<rparr>) ''main'')
             \<lparr>volume := Some (clamp_volume (case v of Some x \<Rightarrow> x | None \<Rightarrow> Fin 100)),
              bands := replicate 4 (Some (15 / 100)) @ replicate 11 (Some 0)\<rparr>)"
    using Player_new_fresh [OF example_fresh example_check(2) sel vol]
    by (simp add: Let_def example_node_def)
  then show ?thesis by (metis prod.collapse)
qed

theorem fresh_session_volume_then_equalizer_witness:
  "get_entry (players example_manager) (opt_guild example_options) = None
   \<and> fst (Player_new as_is example_options example_manager) =
       Inr (example_player\<lparr>volume := Some 100,
              bands := replicate 4 (Some (15 / 100)) @ replicate 11 (Some 0)\<rparr>)
   \<and> sent (io (snd (Player_new as_is example_options example_manager))) =
       [(''main'', Volume_op ''123'' 100),
        (''main'', Equalizer_op ''123''
           [Some (0, 15 / 100), Some (1, 15 / 100), Some (2, 15 / 100), Some (3, 15 / 100),
            Some (4, 0), Some (5, 0), Some (6, 0), Some (7, 0), Some (8, 0), Some (9, 0),
            Some (10, 0), Some (11, 0), Some (12, 0), Some (13, 0), Some (14, 0)])]"
proof -
  have o: "example_options\<lparr>opt_volume := None\<rparr> = example_options"
    by (simp add: example_options_def)
  have fresh: "get_entry (players example_manager) (opt_guild example_options) = None"
    by (rule example_fresh)
  have run: "Player_new as_is example_options example_manager =
      (Inr (example_player\<lparr>volume := Some 100,
              bands := replicate 4 (Some (15 / 100)) @ replicate 11 (Some 0)\<rparr>),
       snd (Player_new as_is example_options example_manager))"
    using example_construction [of None] by (simp add: o example_player_def)
  have "sent (io (snd (Player_new as_is example_options example_manager))) =
       [(''main'', Volume_op ''123'' 100),
        (''main'', Equalizer_op ''123''
           [Some (0, 15 / 100), Some (1, 15 / 100), Some (2, 15 / 100), Some (3, 15 / 100),
            Some (4, 0), Some (5, 0), Some (6, 0), Some (7, 0), Some (8, 0), Some (9, 0),
            Some (10, 0), Some (11, 0), Some (12, 0), Some (13, 0), Some (14, 0)])]"
    using fresh_session_volume_then_equalizer [OF fresh run, THEN conjunct1]
    by (simp add: example_player_def new_player_def example_options_def example_manager_def
        no_effects_def)
  moreover have "fst (Player_new as_is example_options example_manager) =
       Inr (example_player\<lparr>volume := Some 100,
              bands := replicate 4 (Some (15 / 100)) @ replicate 11 (Some 0)\<rparr>)"
    by (subst run) simp
  ultimately show ?thesis using fresh by blast
qed

text \<open>
  The claim as it was worded fails on the volume: the construction with the given
  volume 5000 succeeds, and the volume operation it sends carries 1000.
\<close>

theorem given_volume_is_clamped_counterexample:
  "opt_volume loud_options = Some (Fin 5000)
   \<and> get_entry (players example_manager) (opt_guild loud_options) = None
   \<and> map_sum id volume (fst (Player_new as_is loud_options example_manager)) = Inr (Some 1000)
   \<and> sent (io (snd (Player_new as_is loud_options example_manager))) =
       [(''main'', Volume_op ''123'' 1000),
        (''main'', Equalizer_op ''123''
           [Some (0, 15 / 100), Some (1, 15 / 100), Some (2, 15 / 100), Some (3, 15 / 100),
            Some (4, 0), Some (5, 0), Some (6, 0), Some (7, 0), Some (8, 0), Some (9, 0),
            Some (10, 0), Some (11, 0), Some (12, 0), Some (13, 0), Some (14, 0)])]"
proof -
  have sel: "select_node as_is loud_options example_manager = Some example_node"
    unfolding loud_options_def by (rule example_select [OF example_no_node(2)])
  have fresh: "get_entry (players example_manager) (opt_guild loud_options) = None"
    by (rule example_fresh)
  have chk: "check loud_options = None"
    unfolding loud_options_def by (rule example_check(2))
  have vol: "opt_volume loud_options \<noteq> Some NaN" by (simp add: loud_options_def)
  have "opt_guild loud_options = ''123''" by (simp add: loud_options_def example_options_def)
  then show ?thesis
    using Player_new_fresh [OF fresh chk sel vol] fresh
    by (simp add: Let_def loud_options_def example_manager_def no_effects_def example_node_def
        fresh_equalizer_def)
qed

section \<open>From creation to the first play operation\<close>


lemma create_fresh:
  assumes "get_entry (players m) (opt_guild opts) = None"
  shows "create by_load opts m = Player_new by_load opts m"
  using assms by (simp add: create_def has_def get_entry_def)



lemma play_unresolvable:
  assumes "r ttl = None" "entries (queue p) = []"
  shows "play r (ATrack (UnresolvedTrack ttl)) None p e =
     Some (Inr (),
           p\<lparr>queue := (queue p)\<lparr>previous := (if current (queue p) \<noteq> None then current (queue p)
                                                else previous (queue p)),
                                   current := Some (UnresolvedTrack ttl)\<rparr>\<rparr>,
           e\<lparr>emitted := emitted e @ [TrackError (guild p) (UnresolvedTrack ttl)]\<rparr>)"
  using assms by (subst play.simps) (simp add: Let_def emit_def)





text \<open>
  The conditions of the second half are needed, each on the Manager with the connected
  Node main: with the volume NaN the creation throws, without a voice channel
  \<open>connect\<close> throws, and a track that does not resolve (on an empty queue) is
  reported as a track error and no play operation is sent.
\<close>

lemma creation_throws_on_nan_volume:
  "fst (create as_is (example_options\<lparr>opt_volume := Some NaN\<rparr>) example_manager) =
     Inl (TypeError ''Volume must be a number.'')"
proof -
  have sel: "select_node as_is (example_options\<lparr>opt_volume := Some NaN\<rparr>) example_manager =
      Some example_node"
    by (rule example_select [OF example_no_node(2)])
  show ?thesis
    using sel example_check(2) [of "Some NaN"]
    by (simp add: create_fresh example_fresh Player_new_def Let_def setVolume_def)
qed

lemma connect_throws_without_voice_channel:
  "map_option fst
     (end_to_end as_is (\<lambda>t. None) (example_options\<lparr>opt_voiceChannel := None\<rparr>)
        (Track ''QAAA'' ''Song'') example_manager) =
     Some (Inl (RangeError ''Voice channel ID not set.''))"
proof -
  let ?o = "example_options\<lparr>opt_voiceChannel := None\<rparr>"
  have sel: "select_node as_is ?o example_manager = Some example_node"
    by (rule example_select [OF example_no_node(3)])
  have fresh: "get_entry (players example_manager) (opt_guild ?o) = None"
    by (rule example_fresh)
  note chk = example_check(3)
  have vol: "opt_volume ?o \<noteq> Some NaN" by (simp add: example_options_def)
  show ?thesis
    using Player_new_fresh [OF fresh chk sel vol]
    by (simp add: end_to_end_def create_fresh [OF fresh] Let_def connect_def new_player_def truthy_def)
qed

lemma unresolvable_track_sends_no_play:
  "map_option (\<lambda>(res, m'). (res, sent (io m'), emitted (io m')))
     (end_to_end as_is (\<lambda>t. None) example_options (UnresolvedTrack ''lost'') example_manager) =
     Some (Inr (),
           [(''main'', Volume_op ''123'' 100), (''main'', Equalizer_op ''123'' fresh_equalizer)],
           [PlayerCreate ''123'', TrackError ''123'' (UnresolvedTrack ''lost'')])"
proof -
  define m1 where "m1 = snd (Player_new as_is example_options example_manager)"
  define q where "q = example_player\<lparr>volume := Some 100,
              bands := replicate 4 (Some (15 / 100)) @ replicate 11 (Some 0)\<rparr>"
  have o: "example_options\<lparr>opt_volume := None\<rparr> = example_options"
    by (simp add: example_options_def)
  have run: "create as_is example_options example_manager = (Inr q, m1)"
    using example_construction [of None]
    by (simp add: o example_player_def create_fresh example_fresh m1_def q_def)
  have io: "io m1 =
      \<lparr>sent = [(''main'', Volume_op ''123'' 100), (''main'', Equalizer_op ''123'' fresh_equalizer)],
       gateway = [], emitted = [PlayerCreate ''123'']\<rparr>"
    using Player_new_fresh [OF example_fresh example_check(1) example_select [OF example_no_node(1)],
        of as_is]
    by (simp add: m1_def Let_def example_options_def example_manager_def no_effects_def
        example_node_def)
  have q: "truthy (voiceChannel q)" "entries (queue q) = []" "guild q = ''123''" "node q = ''main''"
    by (simp_all add: q_def example_player_def new_player_def example_options_def truthy_def)
  have step: "end_to_end as_is (\<lambda>t. None) example_options (UnresolvedTrack ''lost'') example_manager =
      (case connect q (io m1) of
         (Inl e, p2, fx2) \<Rightarrow> Some (Inl e, store p2 fx2 m1)
       | (Inr u, p2, fx2) \<Rightarrow>
           (case play (\<lambda>t. None) (ATrack (UnresolvedTrack ''lost'')) None p2 fx2 of
              None \<Rightarrow> None
            | Some (res, p3, fx3) \<Rightarrow> Some (res, store p3 fx3 m1)))"
    by (simp add: end_to_end_def run)
  show ?thesis
    unfolding step
    by (simp add: io q connect_def Let_def options_send_def play_unresolvable store_def)
qed

section \<open>The least-used selection\<close>

lemma set_insert_by: "set (insert_by cmp x ys) = insert x (set ys)"
  by (induction ys) auto

lemma set_sort_by: "set (sort_by cmp c) = set c"
  unfolding sort_by_def by (induction c) (simp_all add: set_insert_by)

lemma insert_by_calls_descending:
  assumes "sorted_wrt (\<lambda>a b. calls (snd b) \<le> calls (snd a)) ys"
  shows "sorted_wrt (\<lambda>a b. calls (snd b) \<le> calls (snd a))
           (insert_by (\<lambda>a b. Fin (of_nat (calls b) - of_nat (calls a))) x ys)"
  using assms by (induction ys) (auto simp: set_insert_by)

text \<open>What the getter computes: the connected Nodes, the one with the most calls first.\<close>

lemma leastUsedNode_descending:
  "sorted_wrt (\<lambda>a b. calls (snd b) \<le> calls (snd a)) (leastUsedNode m)
   \<and> set (leastUsedNode m) = {e \<in> set (nodes m). connected (snd e)}"
proof -
  have "sorted_wrt (\<lambda>a b. calls (snd b) \<le> calls (snd a))
          (sort_by (\<lambda>a b. Fin (of_nat (calls b) - of_nat (calls a))) c)" for c :: "(string, Node) collection"
    unfolding sort_by_def by (induction c) (simp_all add: insert_by_calls_descending)
  then show ?thesis by (auto simp: leastUsedNode_def set_sort_by filter_by_def)
qed

lemma leastUsedNode_first_has_most_calls:
  assumes "first (leastUsedNode m) = Some n" "e \<in> set (nodes m)" "connected (snd e)"
  shows "connected n \<and> calls (snd e) \<le> calls n"
proof -
  from assms(1) obtain k rest where l: "leastUsedNode m = (k, n) # rest"
    by (auto simp: first_def split: list.splits)
  from leastUsedNode_descending [of m] l
  have s: "\<forall>y \<in> set rest. calls (snd y) \<le> calls n"
    and mem: "set ((k, n) # rest) = {e \<in> set (nodes m). connected (snd e)}"
    by simp_all
  have "(k, n) \<in> set ((k, n) # rest)" by simp
  then have "(k, n) \<in> {e \<in> set (nodes m). connected (snd e)}" by (simp only: mem)
  then have "connected n" by simp
  moreover have "e \<in> {e \<in> set (nodes m). connected (snd e)}" using assms(2,3) by simp
  then have "e \<in> set ((k, n) # rest)" by (simp only: mem)
  then have "e = (k, n) \<or> e \<in> set rest" by simp
  with s have "calls (snd e) \<le> calls n" by auto
  ultimately show ?thesis by simp
qed

text \<open>
  Claim C2 on the pool of three Nodes. The getter filters to the connected Nodes, but
  it orders them by descending calls: the first element, which \<open>search\<close> takes, is the
  connected Node with 5 calls, not the one with 1 call.
\<close>

theorem leastUsedNode_takes_most_used:
  "map (\<lambda>e. (fst e, calls (snd e))) (leastUsedNode example_pool) = [(''busy'', 5), (''idle'', 1)]
   \<and> search_node example_pool =
       Inr \<lparr>identifier = ''busy'', connected = True, calls = 5, cpu = None\<rparr>"
  by (simp add: leastUsedNode_def sort_by_def filter_by_def example_pool_def search_node_def first_def)

section \<open>The voice-credential merge\<close>

lemma voice_updates_node_send:
  "filter is_voice_update (sent (node_send n x e)) =
     filter is_voice_update (sent e) @ (if is_voice_update (n, x) then [(n, x)] else [])"
  by (simp add: node_send_def)

lemma voice_updates_emit: "sent (emit ev e) = sent e"
  by (simp add: emit_def)

lemma voice_updates_pause:
  "filter is_voice_update (sent (snd (pause b p e))) = filter is_voice_update (sent e)"
  by (simp add: pause_def Let_def node_send_def)

lemma op_pause: "voiceState (fst (pause b p e)) = voiceState p"
  by (simp add: pause_def Let_def)

lemma without_op_step:
  assumes "without_op g m"
  shows "without_op g (updateVoiceState d m)"
proof (cases "update_of d")
  case None
  then show ?thesis using assms by (simp add: updateVoiceState_def)
next
  case (Some u)
  show ?thesis
  proof (cases "get_entry (players m) (guild_id u)")
    case None
    then show ?thesis using assms Some by (simp add: updateVoiceState_def)
  next
    case (Some q)
    note q = this
    from assms obtain p where p: "get_entry (players m) g = Some p" "op (voiceState p) = None"
      by (auto simp: without_op_def split: option.splits)
    show ?thesis
    proof (cases u)
      case (VoiceServer tok g' ep)
      then show ?thesis
        using \<open>update_of d = Some u\<close> q p
        by (auto simp: updateVoiceState_def without_op_def get_entry_set_entry)
    next
      case (VoiceStateUpdate g' uid sid chan)
      then show ?thesis
        using \<open>update_of d = Some u\<close> q p
        by (auto simp: updateVoiceState_def without_op_def get_entry_set_entry Let_def
            empty_voice_state_def pause_def split: prod.splits if_splits)
    next
      case (OtherUpdate g')
      then show ?thesis using \<open>update_of d = Some u\<close> q assms by (simp add: updateVoiceState_def)
    qed
  qed
qed

lemma without_op_deliver: "without_op g m \<Longrightarrow> without_op g (deliver ds m)"
  unfolding deliver_def by (induction ds arbitrary: m) (simp_all add: without_op_step)

lemma required_keys_need_op: "op vs = None \<Longrightarrow> \<not> list_all (has_key vs) REQUIRED_KEYS"
  by (simp add: REQUIRED_KEYS_def has_key_def)

lemma without_op_no_dispatch:
  assumes "without_op g m" "map_option guild_id (update_of d) = Some g"
  shows "voice_updates (updateVoiceState d m) = voice_updates m"
proof -
  from assms(1) obtain p where p: "get_entry (players m) g = Some p" "op (voiceState p) = None"
    by (auto simp: without_op_def split: option.splits)
  from assms(2) obtain u where u: "update_of d = Some u" "guild_id u = g" by auto
  show ?thesis
  proof (cases u)
    case (VoiceServer tok g' ep)
    then show ?thesis using u p by (simp add: updateVoiceState_def voice_updates_def)
  next
    case (VoiceStateUpdate g' uid sid chan)
    show ?thesis
    proof (cases "Some uid = clientId m")
      case False
      then show ?thesis using u p VoiceStateUpdate by (simp add: updateVoiceState_def)
    next
      case True
      note own = this
      show ?thesis
      proof (cases "truthy chan")
        case True
        have "\<not> list_all (has_key ((voiceState p)\<lparr>sessionId := Some sid\<rparr>)) REQUIRED_KEYS"
          using p(2) by (simp add: required_keys_need_op)
        then show ?thesis
          using u p VoiceStateUpdate own True
          by (simp add: updateVoiceState_def voice_updates_def voice_updates_emit)
      next
        case False
        obtain x1 x2 where z: "pause True (p\<lparr>voiceChannel := None, voiceState := empty_voice_state\<rparr>)
            (emit (PlayerDisconnect g (voiceChannel p)) (io m)) = (x1, x2)"
          by fastforce
        from op_pause [of True "p\<lparr>voiceChannel := None, voiceState := empty_voice_state\<rparr>"
            "emit (PlayerDisconnect g (voiceChannel p)) (io m)"] z
        have "voiceState x1 = empty_voice_state" by simp
        then have no: "\<not> list_all (has_key (voiceState x1)) REQUIRED_KEYS"
          by (simp add: required_keys_need_op empty_voice_state_def)
        from voice_updates_pause [of True "p\<lparr>voiceChannel := None, voiceState := empty_voice_state\<rparr>"
            "emit (PlayerDisconnect g (voiceChannel p)) (io m)"] z
        have "filter is_voice_update (sent x2) = filter is_voice_update (sent (io m))"
          by (simp add: voice_updates_emit)
        then show ?thesis
          using u p VoiceStateUpdate own False z no
          by (simp add: updateVoiceState_def voice_updates_def)
      qed
    qed
  next
    case (OtherUpdate g')
    then show ?thesis using u by (simp add: updateVoiceState_def split: option.splits)
  qed
qed

text \<open>The server fragment is stored and nothing is checked: it never sends.\<close>

lemma server_fragment_never_dispatches:
  assumes "update_of d = Some (VoiceServer tok g ep)"
  shows "voice_updates (updateVoiceState d m) = voice_updates m"
  using assms by (simp add: updateVoiceState_def voice_updates_def split: option.splits)

text \<open>
  The state fragment of the bot's own user, with a channel: it sends the merged record
  when the other three keys are there, and nothing while the server fragment is
  missing.
\<close>

lemma state_fragment_after_server:
  assumes "get_entry (players m) g = Some p" "clientId m = Some uid" "truthy chan"
    and "update_of d = Some (VoiceStateUpdate g uid sid chan)"
    and "op (voiceState p) \<noteq> None" "guildId (voiceState p) \<noteq> None" "event (voiceState p) \<noteq> None"
  shows "voice_updates (updateVoiceState d m) =
           voice_updates m @ [(node p, VoiceUpdate_op ((voiceState p)\<lparr>sessionId := Some sid\<rparr>))]"
  using assms
  by (simp add: updateVoiceState_def voice_updates_def voice_updates_emit REQUIRED_KEYS_def
      has_key_def node_send_def)

lemma state_fragment_before_server:
  assumes "get_entry (players m) g = Some p" "truthy chan"
    and "update_of d = Some (VoiceStateUpdate g uid sid chan)"
    and "event (voiceState p) = None"
  shows "voice_updates (updateVoiceState d m) = voice_updates m"
  using assms
  by (simp add: updateVoiceState_def voice_updates_def voice_updates_emit REQUIRED_KEYS_def
      has_key_def)

lemma example_session_value:
  "example_session =
     example_manager\<lparr>players := [(''123'', example_created)],
       io := \<lparr>sent = [(''main'', Volume_op ''123'' 100),
                       (''main'', Equalizer_op ''123'' fresh_equalizer)],
              gateway = [], emitted = [PlayerCreate ''123'']\<rparr>\<rparr>"
proof -
  have fresh: "get_entry (players example_manager) (opt_guild example_options) = None"
    by (rule example_fresh)
  note chk = example_check(1)
  have sel: "select_node as_is example_options example_manager = Some example_node"
    by (rule example_select [OF example_no_node(1)])
  have vol: "opt_volume example_options \<noteq> Some NaN" by (simp add: example_options_def)
  show ?thesis
    using Player_new_fresh [OF fresh chk sel vol]
    by (simp add: example_session_def Let_def example_created_def example_player_def
        example_node_def example_options_def example_manager_def no_effects_def)
qed

lemma example_session_fields:
  "get_entry (players example_session) ''123'' = Some example_created"
  "clientId example_session = Some ''1''"
  "voice_updates example_session = []"
  "voiceState example_created =
     \<lparr>op = Some ''voiceUpdate'', guildId = Some ''123'', event = None, sessionId = None\<rparr>"
  "node example_created = ''main''"
  by (simp_all add: example_session_value get_entry_def example_manager_def voice_updates_def
      example_created_def example_player_def new_player_def example_options_def)

lemma example_fragments:
  "update_of server_fragment = Some (VoiceServer ''tok'' ''123'' ''eu.example'')"
  "update_of state_fragment = Some (VoiceStateUpdate ''123'' ''1'' ''sess'' (Some ''5''))"
  "update_of disconnect_fragment = Some (VoiceStateUpdate ''123'' ''1'' ''sess'' None)"
  by (simp_all add: update_of_def server_fragment_def state_fragment_def disconnect_fragment_def)

text \<open>
  Claim C1 on the Session of guild 123. Server fragment first, state fragment second:
  one merged operation is sent. State fragment first, server fragment second: none is
  sent, although the credential record then holds all four required keys. The check
  of the required keys runs only in the branch of the state fragment.
\<close>

theorem merge_depends_on_order:
  "voice_updates (updateVoiceState state_fragment (updateVoiceState server_fragment example_session)) =
     [(''main'', VoiceUpdate_op
         \<lparr>op = Some ''voiceUpdate'', guildId = Some ''123'',
          event = Some (VoiceServer ''tok'' ''123'' ''eu.example''), sessionId = Some ''sess''\<rparr>)]
   \<and> voice_updates (updateVoiceState server_fragment (updateVoiceState state_fragment example_session)) = []
   \<and> map_option voiceState
       (get_entry (players (updateVoiceState server_fragment (updateVoiceState state_fragment example_session)))
          ''123'') =
       Some \<lparr>op = Some ''voiceUpdate'', guildId = Some ''123'',
             event = Some (VoiceServer ''tok'' ''123'' ''eu.example''), sessionId = Some ''sess''\<rparr>"
proof -
  let ?srv = "updateVoiceState server_fragment example_session"
  let ?st = "updateVoiceState state_fragment example_session"
  have srv: "get_entry (players ?srv) ''123'' =
      Some (example_created\<lparr>voiceState := (voiceState example_created)
              \<lparr>event := Some (VoiceServer ''tok'' ''123'' ''eu.example'')\<rparr>\<rparr>)"
    "clientId ?srv = Some ''1''"
    by (simp_all add: updateVoiceState_def example_fragments example_session_fields get_entry_set_entry)
  have "voice_updates (updateVoiceState state_fragment ?srv) =
          voice_updates ?srv @ [(''main'', VoiceUpdate_op
         \<lparr>op = Some ''voiceUpdate'', guildId = Some ''123'',
          event = Some (VoiceServer ''tok'' ''123'' ''eu.example''), sessionId = Some ''sess''\<rparr>)]"
    using state_fragment_after_server [OF srv(1) srv(2) _ example_fragments(2)]
    by (simp add: truthy_def example_session_fields)
  then have one: "voice_updates (updateVoiceState state_fragment ?srv) =
          [(''main'', VoiceUpdate_op
         \<lparr>op = Some ''voiceUpdate'', guildId = Some ''123'',
          event = Some (VoiceServer ''tok'' ''123'' ''eu.example''), sessionId = Some ''sess''\<rparr>)]"
    by (simp add: server_fragment_never_dispatches [OF example_fragments(1)] example_session_fields)
  have st: "get_entry (players ?st) ''123'' =
      Some (example_created\<lparr>voiceState := (voiceState example_created)\<lparr>sessionId := Some ''sess''\<rparr>,
              voiceChannel := Some ''5''\<rparr>)"
    by (simp add: updateVoiceState_def example_fragments example_session_fields get_entry_set_entry
        truthy_def REQUIRED_KEYS_def has_key_def)
  have "voice_updates ?st = voice_updates example_session"
    using state_fragment_before_server [OF example_session_fields(1) _ example_fragments(2)]
    by (simp add: truthy_def example_session_fields)
  then have none: "voice_updates (updateVoiceState server_fragment ?st) = []"
    by (simp add: server_fragment_never_dispatches [OF example_fragments(1)] example_session_fields)
  have full: "map_option voiceState (get_entry (players (updateVoiceState server_fragment ?st)) ''123'') =
       Some \<lparr>op = Some ''voiceUpdate'', guildId = Some ''123'',
             event = Some (VoiceServer ''tok'' ''123'' ''eu.example''), sessionId = Some ''sess''\<rparr>"
    using st
    by (simp add: updateVoiceState_def example_fragments get_entry_set_entry example_session_fields)
  show ?thesis using one none full by simp
qed

text \<open>
  Claim C10. When \<open>updateVoiceState\<close> processes a state fragment of the bot's own
  user with a null channel id for a guild that has a Session, the credential record of
  that Session becomes the empty record (no \<open>op\<close>, no \<open>guildId\<close>) and the step
  itself sends no merged operation. From then on, after any further deliveries
  whatsoever, the record of that Session still fails the required-keys check, and
  delivering any fragment addressed to that guild sends no merged voice-update
  operation.
\<close>

theorem reset_never_dispatches_again:
  assumes "get_entry (players m) g = Some p" "clientId m = Some uid"
    and "update_of d0 = Some (VoiceStateUpdate g uid sid None)"
  shows "map_option voiceState (get_entry (players (updateVoiceState d0 m)) g) = Some empty_voice_state
         \<and> op empty_voice_state = None \<and> guildId empty_voice_state = None
         \<and> voice_updates (updateVoiceState d0 m) = voice_updates m
         \<and> (\<forall>ds. case get_entry (players (deliver ds (updateVoiceState d0 m))) g of
                   Some q \<Rightarrow> \<not> list_all (has_key (voiceState q)) REQUIRED_KEYS
                 | None \<Rightarrow> False)
         \<and> (\<forall>ds d. map_option guild_id (update_of d) = Some g \<longrightarrow>
               voice_updates (updateVoiceState d (deliver ds (updateVoiceState d0 m))) =
               voice_updates (deliver ds (updateVoiceState d0 m)))"
proof -
  let ?m1 = "updateVoiceState d0 m"
  obtain x1 x2 where z: "pause True (p\<lparr>voiceChannel := None, voiceState := empty_voice_state\<rparr>)
      (emit (PlayerDisconnect g (voiceChannel p)) (io m)) = (x1, x2)"
    by fastforce
  from op_pause [of True "p\<lparr>voiceChannel := None, voiceState := empty_voice_state\<rparr>"
      "emit (PlayerDisconnect g (voiceChannel p)) (io m)"] z
  have x1: "voiceState x1 = empty_voice_state" by simp
  then have no: "\<not> list_all (has_key (voiceState x1)) REQUIRED_KEYS"
    by (simp add: required_keys_need_op empty_voice_state_def)
  from voice_updates_pause [of True "p\<lparr>voiceChannel := None, voiceState := empty_voice_state\<rparr>"
      "emit (PlayerDisconnect g (voiceChannel p)) (io m)"] z
  have x2: "filter is_voice_update (sent x2) = filter is_voice_update (sent (io m))"
    by (simp add: voice_updates_emit)
  have m1: "?m1 = m\<lparr>players := set_entry g x1 (players m), io := x2\<rparr>"
    using assms z no by (simp add: updateVoiceState_def truthy_def)
  have reset: "map_option voiceState (get_entry (players ?m1) g) = Some empty_voice_state"
    by (simp add: m1 get_entry_set_entry x1)
  have same: "voice_updates ?m1 = voice_updates m"
    by (simp add: m1 voice_updates_def x2)
  have w: "without_op g ?m1"
    by (simp add: without_op_def m1 get_entry_set_entry x1 empty_voice_state_def)
  have later: "case get_entry (players (deliver ds ?m1)) g of
                   Some q \<Rightarrow> \<not> list_all (has_key (voiceState q)) REQUIRED_KEYS
                 | None \<Rightarrow> False" for ds
    using without_op_deliver [OF w, of ds]
    by (auto simp: without_op_def required_keys_need_op split: option.splits)
  have never: "voice_updates (updateVoiceState d (deliver ds ?m1)) = voice_updates (deliver ds ?m1)"
    if "map_option guild_id (update_of d) = Some g" for ds d
    using without_op_no_dispatch [OF without_op_deliver [OF w] that] .
  show ?thesis
    using reset same later never by (simp add: empty_voice_state_def)
qed

theorem reset_never_dispatches_again_witness:
  "get_entry (players example_session) ''123'' = Some example_created
   \<and> clientId example_session = Some ''1''
   \<and> update_of disconnect_fragment = Some (VoiceStateUpdate ''123'' ''1'' ''sess'' None)
   \<and> map_option voiceState (get_entry (players (updateVoiceState disconnect_fragment example_session)) ''123'') =
       Some \<lparr>op = None, guildId = None, event = None, sessionId = None\<rparr>
   \<and> voice_updates (updateVoiceState state_fragment
        (deliver [server_fragment] (updateVoiceState disconnect_fragment example_session))) = []"
proof -
  note t = reset_never_dispatches_again [OF example_session_fields(1,2) example_fragments(3)]
  let ?m1 = "updateVoiceState disconnect_fragment example_session"
  from t have reset: "map_option voiceState (get_entry (players ?m1) ''123'') =
       Some \<lparr>op = None, guildId = None, event = None, sessionId = None\<rparr>"
    by (simp add: empty_voice_state_def)
  from t have same: "voice_updates ?m1 = []" by (simp add: example_session_fields)
  from t have never: "\<And>ds d. map_option guild_id (update_of d) = Some ''123'' \<Longrightarrow>
               voice_updates (updateVoiceState d (deliver ds ?m1)) = voice_updates (deliver ds ?m1)"
    by blast
  have a: "voice_updates (deliver [server_fragment] ?m1) = []"
    using never [of server_fragment "[]"] same by (simp add: deliver_def example_fragments)
  have "voice_updates (updateVoiceState state_fragment (deliver [server_fragment] ?m1)) = []"
    using never [of state_fragment "[server_fragment]"] a by (simp add: example_fragments)
  then show ?thesis using reset example_session_fields(1,2) example_fragments(3) by simp
qed

end
